theory Spec2Isabelle
  imports Complex_Main
begin

section \<open>Data model of the Trustpilot client\<close>

text \<open>
  The configuration dataclass of \<^verbatim>\<open>trustpilotEndpoint.py\<close>. The timeout is a Python
  integer; the delay is only ever handed to \<^verbatim>\<open>time.sleep\<close>, never computed with.
\<close>

record TrustpilotConfig =
  api_key :: string
  base_url :: string
  timeout :: int
  rate_limit_delay :: real

text \<open>
  A decoded JSON document, as \<^verbatim>\<open>response.json()\<close> returns it: a dictionary is an
  association list in insertion order (its keys are distinct), a string is the list of
  its characters, a number is a Python integer or a float.
\<close>

datatype json =
    JNull
  | JBool bool
  | JInt int
  | JFloat real
  | JString string
  | JArray "json list"
  | JObject "(string \<times> json) list"

text \<open>
  The exceptions that travel through the client. The first three are the classes of
  \<^verbatim>\<open>requests.exceptions\<close> that the handlers of the request executor name, each
  standing for the first handler that matches the raised object; \<open>OtherException\<close> is
  any exception outside that hierarchy (its class name and its text). Every constructor
  carries the text that \<^verbatim>\<open>str(e)\<close> gives.
\<close>

datatype py_exception =
    Timeout string
  | ConnectionError string
  | RequestException string
  | TrustpilotAPIError string
  | OtherException string string

datatype param = PStr string | PInt int

record http_request =
  url :: string
  params :: "(string \<times> param) list option"
  req_timeout :: int

text \<open>
  What the session hands back: the status code, the raw body text and the outcome of
  \<^verbatim>\<open>response.json()\<close>, which is the decoded document or the exception the
  library raises on a body that does not decode.
\<close>

record response =
  status_code :: int
  body_text :: string
  json_body :: "py_exception + json"

datatype http_outcome = Response response | Raises py_exception

text \<open>
  The observable effects, in the order they happen: a GET sent through the session, a
  pause of \<^verbatim>\<open>time.sleep\<close>, a line written by \<^verbatim>\<open>print\<close>.
\<close>

datatype event = Get http_request | Sleep real | Print string

type_synonym trace = "event list"

type_synonym network = "http_request \<Rightarrow> http_outcome"

section \<open>Python primitives used by the client\<close>

definition digit :: "nat \<Rightarrow> char" where
  "digit n = ''0123456789'' ! n"

function str_nat :: "nat \<Rightarrow> string" where
  "str_nat n = (if n < 10 then [digit n] else str_nat (n div 10) @ [digit (n mod 10)])"
  by pat_completeness auto
termination
  by (relation "measure id") auto

declare str_nat.simps [simp del]

text \<open>\<^verbatim>\<open>str\<close> of a Python integer, as the f-strings format it.\<close>

definition str_int :: "int \<Rightarrow> string" where
  "str_int i = (if i < 0 then ''-'' @ str_nat (nat (- i)) else str_nat (nat i))"

text \<open>\<^verbatim>\<open>endpoint.lstrip('/')\<close>\<close>

definition lstrip_slash :: "string \<Rightarrow> string" where
  "lstrip_slash e = dropWhile (\<lambda>c. c = CHR ''/'') e"

text \<open>Truth value of a Python object that came out of a JSON document.\<close>

fun truthy :: "json \<Rightarrow> bool" where
  "truthy JNull = False"
| "truthy (JBool b) = b"
| "truthy (JInt i) = (i \<noteq> 0)"
| "truthy (JFloat x) = (x \<noteq> 0)"
| "truthy (JString s) = (s \<noteq> [])"
| "truthy (JArray xs) = (xs \<noteq> [])"
| "truthy (JObject kvs) = (kvs \<noteq> [])"

text \<open>
  \<^verbatim>\<open>response.get(key, default)\<close>: only a dictionary has the method; any other
  document raises AttributeError.
\<close>

fun dict_get :: "json \<Rightarrow> string \<Rightarrow> json \<Rightarrow> py_exception + json" where
  "dict_get (JObject kvs) k d = Inr (case map_of kvs k of None \<Rightarrow> d | Some v \<Rightarrow> v)"
| "dict_get _ k d = Inl (OtherException ''AttributeError'' ''object has no attribute get'')"

text \<open>
  The elements that \<^verbatim>\<open>list.extend\<close> takes from its argument: the items of a list,
  the characters of a string, the keys of a dictionary; anything else is not iterable.
\<close>

fun iterate :: "json \<Rightarrow> py_exception + json list" where
  "iterate (JArray xs) = Inr xs"
| "iterate (JString s) = Inr (map (\<lambda>c. JString [c]) s)"
| "iterate (JObject kvs) = Inr (map (\<lambda>kv. JString (fst kv)) kvs)"
| "iterate _ = Inl (OtherException ''TypeError'' ''object is not iterable'')"

text \<open>\<^verbatim>\<open>len\<close>\<close>

fun len :: "json \<Rightarrow> py_exception + int" where
  "len (JArray xs) = Inr (int (length xs))"
| "len (JString s) = Inr (int (length s))"
| "len (JObject kvs) = Inr (int (length kvs))"
| "len _ = Inl (OtherException ''TypeError'' ''object has no len()'')"

section \<open>The request executor\<close>

text \<open>
  \<^verbatim>\<open>_make_request\<close> is \<open>make_request\<close> here (a name cannot start with an
  underscore). The session is the function \<open>net\<close>, which gives the outcome of a GET:
  a response, or the exception that \<^verbatim>\<open>session.get\<close> raises. The headers that the
  constructor fixes on the session go out unchanged with every request and are left out
  of the request record. \<^verbatim>\<open>time.sleep\<close> is the event it leaves in the trace.

  The three \<^verbatim>\<open>except\<close> clauses, in their order; an exception that none of them
  names leaves the function as it is, and so does the client's own exception, raised
  inside the \<^verbatim>\<open>try\<close> block.
\<close>

fun except_clauses :: "py_exception \<Rightarrow> py_exception" where
  "except_clauses (Timeout m) = TrustpilotAPIError ''Request timed out''"
| "except_clauses (ConnectionError m) = TrustpilotAPIError ''Connection error occurred''"
| "except_clauses (RequestException m) = TrustpilotAPIError (''Request failed: '' @ m)"
| "except_clauses e = e"

text \<open>The body of the \<^verbatim>\<open>try\<close> block: the GET, the pause, the dispatch on the status.\<close>

definition try_block ::
  "TrustpilotConfig \<Rightarrow> network \<Rightarrow> http_request \<Rightarrow> trace \<Rightarrow> (py_exception + json) \<times> trace" where
  "try_block config net req s =
     (case net req of
        Raises e \<Rightarrow> (Inl e, s @ [Get req])
      | Response r \<Rightarrow>
          (let s' = s @ [Get req, Sleep (rate_limit_delay config)] in
           if status_code r = 200 then (json_body r, s')
           else if status_code r = 401 then
             (Inl (TrustpilotAPIError ''Invalid API key or unauthorized access''), s')
           else if status_code r = 404 then
             (Inl (TrustpilotAPIError ''Resource not found''), s')
           else if status_code r = 429 then
             (Inl (TrustpilotAPIError
                ''Rate limit exceeded. Please wait before making more requests.''), s')
           else
             (Inl (TrustpilotAPIError
                (''API request failed with status '' @ str_int (status_code r) @ '': '' @ body_text r)),
              s')))"

definition build_request ::
  "TrustpilotConfig \<Rightarrow> string \<Rightarrow> (string \<times> param) list option \<Rightarrow> http_request" where
  "build_request config endpoint ps =
     \<lparr>url = base_url config @ ''/'' @ lstrip_slash endpoint,
      params = ps,
      req_timeout = timeout config\<rparr>"

definition make_request ::
  "TrustpilotConfig \<Rightarrow> network \<Rightarrow> string \<Rightarrow> (string \<times> param) list option \<Rightarrow> trace
     \<Rightarrow> (py_exception + json) \<times> trace" where
  "make_request config net endpoint ps s =
     (case try_block config net (build_request config endpoint ps) s of
        (Inl e, s') \<Rightarrow> (Inl (except_clauses e), s')
      | (Inr payload, s') \<Rightarrow> (Inr payload, s'))"

section \<open>The public operations\<close>


definition get_business_unit_info ::
  "TrustpilotConfig \<Rightarrow> network \<Rightarrow> string \<Rightarrow> trace \<Rightarrow> (py_exception + json) \<times> trace" where
  "get_business_unit_info config net buid s =
     make_request config net (''business-units/'' @ buid) None s"

definition get_reviews ::
  "TrustpilotConfig \<Rightarrow> network \<Rightarrow> string \<Rightarrow> int \<Rightarrow> int \<Rightarrow> trace
     \<Rightarrow> (py_exception + json) \<times> trace" where
  "get_reviews config net buid per_page page s =
     make_request config net (''business-units/'' @ buid @ ''/reviews'')
       (Some [(''perPage'', PInt (min per_page 100)), (''page'', PInt page)]) s"

definition get_business_statistics ::
  "TrustpilotConfig \<Rightarrow> network \<Rightarrow> string \<Rightarrow> trace \<Rightarrow> (py_exception + json) \<times> trace" where
  "get_business_statistics config net buid s =
     make_request config net (''business-units/'' @ buid @ ''/statistics'') None s"

text \<open>\<^verbatim>\<open>max_pages and page > max_pages\<close>: None and 0 are both false in Python.\<close>

definition limit_reached :: "int option \<Rightarrow> int \<Rightarrow> bool" where
  "limit_reached max_pages page =
     (case max_pages of None \<Rightarrow> False | Some m \<Rightarrow> m \<noteq> 0 \<and> page > m)"

text \<open>
  The \<^verbatim>\<open>while True\<close> loop of \<^verbatim>\<open>get_all_reviews\<close>. It need not end, so its result is
  an option: None is a run that never returns. A result \<open>Inl e\<close> is an exception that
  leaves the function; only a TrustpilotAPIError is caught, printed and turned into a
  \<^verbatim>\<open>break\<close>.
\<close>

partial_function (option) get_all_reviews_loop ::
  "TrustpilotConfig \<Rightarrow> network \<Rightarrow> string \<Rightarrow> int option \<Rightarrow> json list \<Rightarrow> int \<Rightarrow> trace
     \<Rightarrow> ((py_exception + json list) \<times> trace) option" where
  "get_all_reviews_loop config net buid max_pages all_reviews page s =
     (if limit_reached max_pages page then Some (Inr all_reviews, s)
      else
        (case get_reviews config net buid 100 page s of
           (Inl (TrustpilotAPIError m), s') \<Rightarrow>
             Some (Inr all_reviews,
                   s' @ [Print (''Error fetching page '' @ str_int page @ '': '' @ m)])
         | (Inl e, s') \<Rightarrow> Some (Inl e, s')
         | (Inr resp, s') \<Rightarrow>
             (case dict_get resp ''reviews'' (JArray []) of
                Inl e \<Rightarrow> Some (Inl e, s')
              | Inr reviews \<Rightarrow>
                  if \<not> truthy reviews then Some (Inr all_reviews, s')
                  else
                    (case iterate reviews of
                       Inl e \<Rightarrow> Some (Inl e, s')
                     | Inr items \<Rightarrow>
                         (case len reviews of
                            Inl e \<Rightarrow> Some (Inl e, s')
                          | Inr n \<Rightarrow>
                              if n < 100 then Some (Inr (all_reviews @ items), s')
                              else get_all_reviews_loop config net buid max_pages
                                     (all_reviews @ items) (page + 1) s')))))"

definition get_all_reviews ::
  "TrustpilotConfig \<Rightarrow> network \<Rightarrow> string \<Rightarrow> int option \<Rightarrow> trace
     \<Rightarrow> ((py_exception + json list) \<times> trace) option" where
  "get_all_reviews config net buid max_pages s =
     get_all_reviews_loop config net buid max_pages [] 1 s"

section \<open>Observations on a run\<close>

text \<open>
  The request that \<^verbatim>\<open>get_reviews\<close> builds for a page when it is called with page
  size 100, as the pagination loop calls it.
\<close>

definition page_request :: "TrustpilotConfig \<Rightarrow> string \<Rightarrow> int \<Rightarrow> http_request" where
  "page_request config buid page =
     \<lparr>url = base_url config @ ''/business-units/'' @ buid @ ''/reviews'',
      params = Some [(''perPage'', PInt 100), (''page'', PInt page)],
      req_timeout = timeout config\<rparr>"

text \<open>
  What the loop's call for a page returns or raises, and the events that call adds to
  the trace. Both are read off \<open>get_reviews\<close> itself, run on an empty trace.
\<close>

definition page_result :: "TrustpilotConfig \<Rightarrow> network \<Rightarrow> string \<Rightarrow> int \<Rightarrow> py_exception + json" where
  "page_result config net buid page = fst (get_reviews config net buid 100 page [])"

definition page_events :: "TrustpilotConfig \<Rightarrow> network \<Rightarrow> string \<Rightarrow> int \<Rightarrow> trace" where
  "page_events config net buid page = snd (get_reviews config net buid 100 page [])"

text \<open>
  The review list a page carries: the list stored under the key reviews of a decoded
  dictionary, or the empty default of \<^verbatim>\<open>response.get('reviews', [])\<close> when
  the key is absent.
\<close>

fun reviews_of :: "py_exception + json \<Rightarrow> json list option" where
  "reviews_of (Inr (JObject kvs)) =
     (case map_of kvs ''reviews'' of
        None \<Rightarrow> Some []
      | Some (JArray xs) \<Rightarrow> Some xs
      | Some _ \<Rightarrow> None)"
| "reviews_of _ = None"

text \<open>The GET requests of a trace, in the order they were sent.\<close>

fun requests_of :: "trace \<Rightarrow> http_request list" where
  "requests_of [] = []"
| "requests_of (Get r # es) = r # requests_of es"
| "requests_of (e # es) = requests_of es"

text \<open>
  Whether the loop's call for a page raised the client's own exception.
\<close>

fun is_api_error :: "py_exception + json \<Rightarrow> bool" where
  "is_api_error (Inl (TrustpilotAPIError m)) = True"
| "is_api_error _ = False"



section \<open>Simulated servers\<close>

text \<open>
  Concrete inputs for the runs below: the configuration with the defaults of the
  dataclass, a successful page carrying a list of reviews, a response with a bare status
  code, and a server that answers a request by its \<^verbatim>\<open>page\<close> query parameter.
\<close>

definition demo_config :: TrustpilotConfig where
  "demo_config =
     \<lparr>api_key = ''key'', base_url = ''https://api.trustpilot.com/v1'', timeout = 30,
      rate_limit_delay = 1 / 10\<rparr>"

definition ok_page :: "json list \<Rightarrow> http_outcome" where
  "ok_page xs =
     Response \<lparr>status_code = 200, body_text = [],
               json_body = Inr (JObject [(''reviews'', JArray xs)])\<rparr>"

definition status_page :: "int \<Rightarrow> string \<Rightarrow> http_outcome" where
  "status_page code body = Response \<lparr>status_code = code, body_text = body, json_body = Inr JNull\<rparr>"

definition paged_net :: "(int \<Rightarrow> http_outcome) \<Rightarrow> network" where
  "paged_net pages req =
     (case params req of
        None \<Rightarrow> Raises (ConnectionError [])
      | Some ps \<Rightarrow>
          (case map_of ps ''page'' of
             Some (PInt k) \<Rightarrow> pages k
           | _ \<Rightarrow> Raises (ConnectionError [])))"

text \<open>
  Page 1 and page 2 with 100 reviews each, page 3 with 42, nothing after; the same
  first page followed by a rate limit; and two short pages followed by a rate limit.
\<close>

definition sim_stream :: "int \<Rightarrow> http_outcome" where
  "sim_stream k =
     (if k = 1 then ok_page (replicate 100 (JString ''a''))
      else if k = 2 then ok_page (replicate 100 (JString ''b''))
      else if k = 3 then ok_page (replicate 42 (JString ''c''))
      else ok_page [])"

definition sim_stream_limited :: "int \<Rightarrow> http_outcome" where
  "sim_stream_limited k =
     (if k = 1 then ok_page (replicate 100 (JString ''a''))
      else status_page 429 ''Too Many Requests'')"

definition short_stream :: "int \<Rightarrow> http_outcome" where
  "short_stream k =
     (if k = 1 then ok_page [JString ''a'']
      else if k = 2 then ok_page [JString ''b'']
      else status_page 429 ''Too Many Requests'')"

text \<open>A stream without a last page: every page holds 100 reviews.\<close>

definition full_stream :: "int \<Rightarrow> http_outcome" where
  "full_stream k = ok_page (replicate 100 (JString ''a''))"


section \<open>Auxiliary facts\<close>

lemma requests_of_append: "requests_of (a @ b) = requests_of a @ requests_of b"
  by (induction a rule: requests_of.induct) simp_all

lemma try_block_trace:
  "try_block config net req s = (fst (try_block config net req []), s @ snd (try_block config net req []))"
  by (simp add: try_block_def Let_def split: http_outcome.splits)

lemma make_request_trace:
  "make_request config net ep ps s =
     (fst (make_request config net ep ps []), s @ snd (make_request config net ep ps []))"
  unfolding make_request_def
  by (subst try_block_trace) (simp split: prod.splits sum.splits)

lemma get_reviews_trace:
  "get_reviews config net buid 100 page s =
     (page_result config net buid page, s @ page_events config net buid page)"
  unfolding page_result_def page_events_def get_reviews_def
  by (rule make_request_trace)

lemma build_page_request:
  "build_request config (''business-units/'' @ buid @ ''/reviews'')
     (Some [(''perPage'', PInt (min 100 100)), (''page'', PInt page)]) = page_request config buid page"
  by (simp add: build_request_def page_request_def lstrip_slash_def)

lemma requests_of_try_block:
  "requests_of (snd (try_block config net req [])) = [req]"
  by (simp add: try_block_def Let_def split: http_outcome.splits)

lemma snd_make_request:
  "snd (make_request config net ep ps s) = snd (try_block config net (build_request config ep ps) s)"
  by (simp add: make_request_def split: prod.splits sum.splits)

lemma requests_of_page_events:
  "requests_of (page_events config net buid page) = [page_request config buid page]"
  unfolding page_events_def get_reviews_def snd_make_request build_page_request
  by (rule requests_of_try_block)

lemma reviews_of_SomeD:
  "reviews_of r = Some xs \<Longrightarrow> \<exists>p. r = Inr p \<and> dict_get p ''reviews'' (JArray []) = Inr (JArray xs)"
  by (cases r rule: reviews_of.cases) (auto split: option.splits json.splits)

lemma loop_limit:
  "limit_reached max_pages page \<Longrightarrow>
   get_all_reviews_loop config net buid max_pages acc page s = Some (Inr acc, s)"
  by (subst get_all_reviews_loop.simps) simp

lemma loop_api_error:
  "\<not> limit_reached max_pages page \<Longrightarrow>
   page_result config net buid page = Inl (TrustpilotAPIError m) \<Longrightarrow>
   get_all_reviews_loop config net buid max_pages acc page s =
     Some (Inr acc, s @ page_events config net buid page
                      @ [Print (''Error fetching page '' @ str_int page @ '': '' @ m)])"
  by (subst get_all_reviews_loop.simps) (simp add: get_reviews_trace)

lemma loop_empty:
  "\<not> limit_reached max_pages page \<Longrightarrow>
   reviews_of (page_result config net buid page) = Some [] \<Longrightarrow>
   get_all_reviews_loop config net buid max_pages acc page s =
     Some (Inr acc, s @ page_events config net buid page)"
  by (subst get_all_reviews_loop.simps) (auto simp: get_reviews_trace dest!: reviews_of_SomeD)

lemma loop_short:
  "\<not> limit_reached max_pages page \<Longrightarrow>
   reviews_of (page_result config net buid page) = Some xs \<Longrightarrow> length xs < 100 \<Longrightarrow>
   get_all_reviews_loop config net buid max_pages acc page s =
     Some (Inr (acc @ xs), s @ page_events config net buid page)"
  by (subst get_all_reviews_loop.simps) (auto simp: get_reviews_trace dest!: reviews_of_SomeD)

lemma loop_full:
  "\<not> limit_reached max_pages page \<Longrightarrow>
   reviews_of (page_result config net buid page) = Some xs \<Longrightarrow> 100 \<le> length xs \<Longrightarrow>
   get_all_reviews_loop config net buid max_pages acc page s =
     get_all_reviews_loop config net buid max_pages (acc @ xs) (page + 1)
       (s @ page_events config net buid page)"
  by (subst get_all_reviews_loop.simps) (auto simp: get_reviews_trace dest!: reviews_of_SomeD)

lemma limit_reached_zero: "limit_reached (Some 0) page = limit_reached None page"
  by (simp add: limit_reached_def)





lemma loop_terminates_bounded:
  "0 < m \<Longrightarrow> \<exists>y. get_all_reviews_loop config net buid (Some m) acc page s = Some y"
proof (induction "nat (m + 1 - page)" arbitrary: acc page s)
  case 0
  then have "limit_reached (Some m) page" by (simp add: limit_reached_def)
  then show ?case by (simp add: loop_limit)
next
  case (Suc n)
  have IH: "\<And>acc s. \<exists>y. get_all_reviews_loop config net buid (Some m) acc (page + 1) s = Some y"
    using Suc(1) [of "page + 1"] Suc(2,3) by simp
  show ?case
    apply (subst get_all_reviews_loop.simps)
    using IH apply (auto split: prod.splits sum.splits py_exception.splits)
    done
qed

lemma loop_terminates_at_stop:
  assumes stop: "is_api_error (page_result config net buid k) \<or>
      (\<exists>xs. reviews_of (page_result config net buid k) = Some xs \<and> length xs < 100)"
  shows "page \<le> k \<Longrightarrow> \<exists>y. get_all_reviews_loop config net buid None acc page s = Some y"
proof (induction "nat (k - page)" arbitrary: acc page s)
  case 0
  then have pk: "page = k" by simp
  have nl: "\<not> limit_reached None k" by (simp add: limit_reached_def)
  from stop show ?case
  proof
    assume "is_api_error (page_result config net buid k)"
    then obtain m where "page_result config net buid k = Inl (TrustpilotAPIError m)"
      by (cases "page_result config net buid k" rule: is_api_error.cases) simp_all
    then show ?thesis unfolding pk by (simp add: loop_api_error [OF nl])
  next
    assume "\<exists>xs. reviews_of (page_result config net buid k) = Some xs \<and> length xs < 100"
    then show ?thesis unfolding pk using loop_short [OF nl] by fastforce
  qed
next
  case (Suc n)
  have IH: "\<And>acc s. \<exists>y. get_all_reviews_loop config net buid None acc (page + 1) s = Some y"
    using Suc(1) [of "page + 1"] Suc(2,3) by simp
  show ?case
    apply (subst get_all_reviews_loop.simps)
    using IH apply (auto split: prod.splits sum.splits py_exception.splits)
    done
qed

lemma loop_returns_stop:
  assumes ret: "get_all_reviews_loop config net buid mp acc page s = Some y"
  shows "mp = None \<longrightarrow>
     (\<forall>k\<ge>page. is_api_error (page_result config net buid k) \<or>
                reviews_of (page_result config net buid k) \<noteq> None) \<longrightarrow>
     (\<exists>k\<ge>page. is_api_error (page_result config net buid k) \<or>
        (\<exists>xs. reviews_of (page_result config net buid k) = Some xs \<and> length xs < 100))"
proof (rule get_all_reviews_loop.raw_induct
    [where P = "\<lambda>config net buid mp acc page s y. mp = None \<longrightarrow>
     (\<forall>k\<ge>page. is_api_error (page_result config net buid k) \<or>
                reviews_of (page_result config net buid k) \<noteq> None) \<longrightarrow>
     (\<exists>k\<ge>page. is_api_error (page_result config net buid k) \<or>
        (\<exists>xs. reviews_of (page_result config net buid k) = Some xs \<and> length xs < 100))",
     OF _ ret], goal_cases)
  case (1 loop config net buid max_pages all_reviews page s y)
  let ?stop = "\<lambda>k. is_api_error (page_result config net buid k) \<or>
        (\<exists>xs. reviews_of (page_result config net buid k) = Some xs \<and> length xs < 100)"
  let ?wf = "\<lambda>k. is_api_error (page_result config net buid k) \<or>
                reviews_of (page_result config net buid k) \<noteq> None"
  show ?case
  proof (intro impI)
    assume mp: "max_pages = None" and wf: "\<forall>k\<ge>page. ?wf k"
    show "\<exists>k\<ge>page. ?stop k"
    proof (cases "?stop page")
      case True
      then show ?thesis by (intro exI [of _ page]) simp
    next
      case False
      with wf obtain xs where xs: "reviews_of (page_result config net buid page) = Some xs"
        and full: "100 \<le> length xs"
        by (metis not_less option.exhaust order_refl)
      from reviews_of_SomeD [OF xs] obtain p where p: "page_result config net buid page = Inr p"
        and g: "dict_get p ''reviews'' (JArray []) = Inr (JArray xs)" by blast
      from full have ne: "xs \<noteq> []" by auto
      have "loop config net buid None (all_reviews @ xs) (page + 1)
              (s @ page_events config net buid page) = Some y"
        using 1(2) full ne unfolding mp
        by (simp add: get_reviews_trace p g limit_reached_def)
      from 1(1) [OF this] wf obtain k where "k \<ge> page + 1" "?stop k" by auto
      then show ?thesis by (intro exI [of _ k]) simp
    qed
  qed
qed

lemma limit_reached_mono: "limit_reached mp j \<Longrightarrow> j \<le> k \<Longrightarrow> limit_reached mp k"
  by (auto simp: limit_reached_def split: option.splits)

lemma loop_full_run:
  "(\<forall>j. p \<le> j \<and> j < p + int n \<longrightarrow>
      reviews_of (page_result config net buid j) = Some (rs j) \<and> 100 \<le> length (rs j) \<and>
      \<not> limit_reached mp j) \<Longrightarrow>
   get_all_reviews_loop config net buid mp acc p s =
     get_all_reviews_loop config net buid mp (acc @ concat (map rs [p..p + int n - 1]))
       (p + int n) (s @ concat (map (page_events config net buid) [p..p + int n - 1]))"
proof (induction n arbitrary: acc p s)
  case 0
  then show ?case by simp
next
  case (Suc n)
  have here: "reviews_of (page_result config net buid p) = Some (rs p)"
    "100 \<le> length (rs p)" "\<not> limit_reached mp p"
    using Suc.prems by auto
  have rest: "\<forall>j. p + 1 \<le> j \<and> j < p + 1 + int n \<longrightarrow>
      reviews_of (page_result config net buid j) = Some (rs j) \<and> 100 \<le> length (rs j) \<and>
      \<not> limit_reached mp j"
    using Suc.prems by auto
  have up: "[p..p + int (Suc n) - 1] = p # [p + 1..p + 1 + int n - 1]"
    by (simp add: upto_rec1)
  show ?case
    unfolding loop_full [OF here(3) here(1) here(2)] Suc.IH [OF rest] up
    by (simp add: algebra_simps)
qed

lemma requests_of_concat_pages:
  "requests_of (concat (map (page_events config net buid) ks)) = map (page_request config buid) ks"
  by (induction ks) (simp_all add: requests_of_append requests_of_page_events)

lemma pages_then_api_error:
  assumes full: "\<forall>j. 1 \<le> j \<and> j < k \<longrightarrow>
      reviews_of (page_result config net buid j) = Some (rs j) \<and> 100 \<le> length (rs j)"
    and k: "1 \<le> k"
    and err: "page_result config net buid k = Inl (TrustpilotAPIError m)"
    and lim: "\<not> limit_reached max_pages k"
  shows "get_all_reviews config net buid max_pages s =
     Some (Inr (concat (map rs [1..k - 1])),
           s @ concat (map (page_events config net buid) [1..k])
             @ [Print (''Error fetching page '' @ str_int k @ '': '' @ m)])"
proof -
  define n where "n = nat (k - 1)"
  have kn: "k = 1 + int n" using k by (simp add: n_def)
  have nl: "\<And>j. j < k \<Longrightarrow> \<not> limit_reached max_pages j"
    using lim limit_reached_mono by (meson less_imp_le)
  have pre: "\<forall>j. 1 \<le> j \<and> j < 1 + int n \<longrightarrow>
      reviews_of (page_result config net buid j) = Some (rs j) \<and> 100 \<le> length (rs j) \<and>
      \<not> limit_reached max_pages j"
    using full nl unfolding kn by auto
  have up: "[1..k] = [1..k - 1] @ [k]"
    using k by (simp add: upto_rec2)
  show ?thesis
    unfolding get_all_reviews_def loop_full_run [OF pre]
    unfolding kn [symmetric] loop_api_error [OF lim err] up
    by simp
qed

lemma page_result_try_block:
  "page_result config net buid k =
     (case fst (try_block config net (page_request config buid k) []) of
        Inl e \<Rightarrow> Inl (except_clauses e) | Inr p \<Rightarrow> Inr p)"
  unfolding page_result_def get_reviews_def make_request_def build_page_request
  by (simp split: prod.splits sum.splits)

lemma page_events_try_block:
  "page_events config net buid k = snd (try_block config net (page_request config buid k) [])"
  unfolding page_events_def get_reviews_def snd_make_request build_page_request ..

lemma page_result_200:
  "net (page_request config buid k) = Response r \<Longrightarrow> status_code r = 200 \<Longrightarrow>
   json_body r = Inr p \<Longrightarrow> page_result config net buid k = Inr p"
  by (simp add: page_result_try_block try_block_def)

lemma page_result_429:
  "net (page_request config buid k) = Response r \<Longrightarrow> status_code r = 429 \<Longrightarrow>
   page_result config net buid k =
     Inl (TrustpilotAPIError ''Rate limit exceeded. Please wait before making more requests.'')"
  by (simp add: page_result_try_block try_block_def)

lemma page_events_response:
  "net (page_request config buid k) = Response r \<Longrightarrow>
   page_events config net buid k =
     [Get (page_request config buid k), Sleep (rate_limit_delay config)]"
  by (simp add: page_events_try_block try_block_def Let_def)

lemma paged_net_page: "paged_net pages (page_request config buid k) = pages k"
  by (simp add: paged_net_def page_request_def)

lemma page_result_ok_page:
  "pages k = ok_page xs \<Longrightarrow>
   page_result config (paged_net pages) buid k = Inr (JObject [(''reviews'', JArray xs)])"
  by (rule page_result_200 [where r = "\<lparr>status_code = 200, body_text = [],
               json_body = Inr (JObject [(''reviews'', JArray xs)])\<rparr>"])
     (simp_all add: paged_net_page ok_page_def)

lemma reviews_of_ok_page:
  "pages k = ok_page xs \<Longrightarrow> reviews_of (page_result config (paged_net pages) buid k) = Some xs"
  by (simp add: page_result_ok_page)

lemma page_events_ok_page:
  "pages k = ok_page xs \<Longrightarrow>
   page_events config (paged_net pages) buid k =
     [Get (page_request config buid k), Sleep (rate_limit_delay config)]"
  by (rule page_events_response [where r = "\<lparr>status_code = 200, body_text = [],
               json_body = Inr (JObject [(''reviews'', JArray xs)])\<rparr>"])
     (simp add: paged_net_page ok_page_def)

lemma page_result_rate_limited:
  "pages k = status_page 429 body \<Longrightarrow>
   page_result config (paged_net pages) buid k =
     Inl (TrustpilotAPIError ''Rate limit exceeded. Please wait before making more requests.'')"
  by (rule page_result_429 [where r = "\<lparr>status_code = 429, body_text = body, json_body = Inr JNull\<rparr>"])
     (simp_all add: paged_net_page status_page_def)

section \<open>Claims\<close>

text \<open>
  C1 (as amended): when every page before page \<open>k\<close> (\<open>k \<ge> 2\<close>) succeeds with at least
  100 reviews, the request for page \<open>k\<close> fails with an API error and the maximum page
  count, if any, does not cut in before page \<open>k\<close>, then \<open>get_all_reviews\<close> issues
  exactly the requests for pages 1 to \<open>k\<close>, stops there, prints the error instead of
  raising it, and returns the reviews of pages 1 to \<open>k - 1\<close> in page order. In
  particular, when page 1 returns 100 reviews and page 2 is answered with status 429
  (the rate limit error), it returns exactly those 100 reviews after exactly 2 requests.
  The claim as written asks only for a non-empty first page; a page of fewer than 100
  reviews ends the loop before the failing page is ever requested.
\<close>

theorem partial_results_on_api_error:
  "((\<forall>j. 1 \<le> j \<and> j < k \<longrightarrow>
        reviews_of (page_result config net buid j) = Some (rs j) \<and> 100 \<le> length (rs j)) \<and>
     2 \<le> k \<and> page_result config net buid k = Inl (TrustpilotAPIError m) \<and>
     \<not> limit_reached max_pages k
    \<longrightarrow>
      get_all_reviews config net buid max_pages s =
        Some (Inr (concat (map rs [1..k - 1])),
              s @ concat (map (page_events config net buid) [1..k])
                @ [Print (''Error fetching page '' @ str_int k @ '': '' @ m)])
      \<and> requests_of (concat (map (page_events config net buid) [1..k])
           @ [Print (''Error fetching page '' @ str_int k @ '': '' @ m)]) =
          map (page_request config buid) [1..k])
   \<and>
   (reviews_of (page_result config net buid 1) = Some r1 \<and> length r1 = 100 \<and>
     net (page_request config buid 2) = Response r \<and> status_code r = 429
    \<longrightarrow>
      get_all_reviews config net buid None s =
        Some (Inr r1,
              s @ page_events config net buid 1
                @ [Get (page_request config buid 2), Sleep (rate_limit_delay config),
                   Print ''Error fetching page 2: Rate limit exceeded. Please wait before making more requests.''])
      \<and> requests_of (page_events config net buid 1
             @ [Get (page_request config buid 2), Sleep (rate_limit_delay config),
                Print ''Error fetching page 2: Rate limit exceeded. Please wait before making more requests.'']) =
          [page_request config buid 1, page_request config buid 2])"
proof (intro conjI impI)
  assume a: "(\<forall>j. 1 \<le> j \<and> j < k \<longrightarrow>
        reviews_of (page_result config net buid j) = Some (rs j) \<and> 100 \<le> length (rs j)) \<and>
     2 \<le> k \<and> page_result config net buid k = Inl (TrustpilotAPIError m) \<and>
     \<not> limit_reached max_pages k"
  then have k: "1 \<le> k" by simp
  from a show "get_all_reviews config net buid max_pages s =
        Some (Inr (concat (map rs [1..k - 1])),
              s @ concat (map (page_events config net buid) [1..k])
                @ [Print (''Error fetching page '' @ str_int k @ '': '' @ m)])"
    using pages_then_api_error [OF _ k, of config net buid rs m max_pages s] by blast
  show "requests_of (concat (map (page_events config net buid) [1..k])
           @ [Print (''Error fetching page '' @ str_int k @ '': '' @ m)]) =
          map (page_request config buid) [1..k]"
    by (simp add: requests_of_append requests_of_concat_pages)
next
  assume b: "reviews_of (page_result config net buid 1) = Some r1 \<and> length r1 = 100 \<and>
     net (page_request config buid 2) = Response r \<and> status_code r = 429"
  have nl: "\<And>k. \<not> limit_reached None k" by (simp add: limit_reached_def)
  have err: "page_result config net buid 2 =
     Inl (TrustpilotAPIError ''Rate limit exceeded. Please wait before making more requests.'')"
    using b by (simp add: page_result_429)
  have ev: "page_events config net buid 2 =
     [Get (page_request config buid 2), Sleep (rate_limit_delay config)]"
    using b by (simp add: page_events_response)
  have two: "str_int 2 = ''2''"
    by (simp add: str_int_def str_nat.simps digit_def)
  have "get_all_reviews_loop config net buid None [] 1 s =
      get_all_reviews_loop config net buid None ([] @ r1) (1 + 1)
        (s @ page_events config net buid 1)"
    using b by (intro loop_full [OF nl]) simp_all
  also have "\<dots> = Some (Inr r1, (s @ page_events config net buid 1)
       @ page_events config net buid 2
       @ [Print (''Error fetching page '' @ str_int 2 @ '': '' @
            ''Rate limit exceeded. Please wait before making more requests.'')])"
    using loop_api_error [OF nl err, where acc = r1] by simp
  finally show "get_all_reviews config net buid None s =
        Some (Inr r1,
              s @ page_events config net buid 1
                @ [Get (page_request config buid 2), Sleep (rate_limit_delay config),
                   Print ''Error fetching page 2: Rate limit exceeded. Please wait before making more requests.''])"
    by (simp add: get_all_reviews_def ev two)
  show "requests_of (page_events config net buid 1
             @ [Get (page_request config buid 2), Sleep (rate_limit_delay config),
                Print ''Error fetching page 2: Rate limit exceeded. Please wait before making more requests.'']) =
          [page_request config buid 1, page_request config buid 2]"
    by (simp add: requests_of_append requests_of_page_events)
qed

text \<open>
  The simulated stream of the claim, 100 reviews and then a rate limit, run without a
  maximum page count and with a maximum of 5 pages.
\<close>

theorem partial_results_on_api_error_witness:
  "get_all_reviews demo_config (paged_net sim_stream_limited) ''b'' None [] =
     Some (Inr (replicate 100 (JString ''a'')),
           [Get (page_request demo_config ''b'' 1), Sleep (1 / 10),
            Get (page_request demo_config ''b'' 2), Sleep (1 / 10),
            Print ''Error fetching page 2: Rate limit exceeded. Please wait before making more requests.''])
   \<and> get_all_reviews demo_config (paged_net sim_stream_limited) ''b'' (Some 5) [] =
     Some (Inr (replicate 100 (JString ''a'')),
           [Get (page_request demo_config ''b'' 1), Sleep (1 / 10),
            Get (page_request demo_config ''b'' 2), Sleep (1 / 10),
            Print ''Error fetching page 2: Rate limit exceeded. Please wait before making more requests.''])"
proof -
  have r: "paged_net sim_stream_limited (page_request demo_config ''b'' 2) =
      Response \<lparr>status_code = 429, body_text = ''Too Many Requests'', json_body = Inr JNull\<rparr>"
    by (simp add: paged_net_page sim_stream_limited_def status_page_def)
  have p1: "reviews_of (page_result demo_config (paged_net sim_stream_limited) ''b'' 1) =
      Some (replicate 100 (JString ''a''))"
    by (simp add: reviews_of_ok_page [of sim_stream_limited] sim_stream_limited_def)
  have p2: "page_result demo_config (paged_net sim_stream_limited) ''b'' 2 =
      Inl (TrustpilotAPIError ''Rate limit exceeded. Please wait before making more requests.'')"
    by (simp add: page_result_rate_limited [of sim_stream_limited] sim_stream_limited_def)
  have e1: "page_events demo_config (paged_net sim_stream_limited) ''b'' 1 =
      [Get (page_request demo_config ''b'' 1), Sleep (1 / 10)]"
    by (simp add: page_events_ok_page [of sim_stream_limited] sim_stream_limited_def demo_config_def)
  have e2: "page_events demo_config (paged_net sim_stream_limited) ''b'' 2 =
      [Get (page_request demo_config ''b'' 2), Sleep (1 / 10)]"
    using page_events_response [where net = "paged_net sim_stream_limited", OF r]
    by (simp add: demo_config_def)
  have pre: "\<forall>j. 1 \<le> j \<and> j < 2 \<longrightarrow>
      reviews_of (page_result demo_config (paged_net sim_stream_limited) ''b'' j) =
        Some (replicate 100 (JString ''a'')) \<and>
      100 \<le> length (replicate 100 (JString ''a''))"
  proof (intro allI impI)
    fix j :: int
    assume "1 \<le> j \<and> j < 2"
    then have "j = 1" by simp
    then show "reviews_of (page_result demo_config (paged_net sim_stream_limited) ''b'' j) =
        Some (replicate 100 (JString ''a'')) \<and>
      100 \<le> length (replicate 100 (JString ''a''))"
      using p1 by simp
  qed
  have lim: "\<not> limit_reached (Some 5) 2" by (simp add: limit_reached_def)
  have two: "str_int 2 = ''2''" by (simp add: str_int_def str_nat.simps digit_def)
  have up: "[1..2 - 1] = [1::int]" "[1..2] = [1, 2::int]" by (simp_all add: upto_rec1)
  show ?thesis
    using partial_results_on_api_error [where config = demo_config
        and net = "paged_net sim_stream_limited" and buid = "''b''" and s = "[]"
        and k = 2 and rs = "\<lambda>j. replicate 100 (JString ''a'')" and max_pages = "Some 5"
        and m = "''Rate limit exceeded. Please wait before making more requests.''"
        and ?r1.0 = "replicate 100 (JString ''a'')"
        and r = "\<lparr>status_code = 429, body_text = ''Too Many Requests'', json_body = Inr JNull\<rparr>"]
      r p1 p2 e1 e2 pre lim two up
    by (simp add: demo_config_def)
qed

text \<open>
  A first page with one review, a second page with one review, a third page that would
  be rate limited: page 1 succeeds with a non-empty list and a later page's request
  fails, yet the run ends after the single request for page 1 and returns that page
  alone; page 2, which succeeds before the failure, is never fetched.
\<close>

theorem stops_before_failing_page_counterexample:
  "reviews_of (page_result demo_config (paged_net short_stream) ''b'' 1) = Some [JString ''a'']
   \<and> reviews_of (page_result demo_config (paged_net short_stream) ''b'' 2) = Some [JString ''b'']
   \<and> page_result demo_config (paged_net short_stream) ''b'' 3 =
       Inl (TrustpilotAPIError ''Rate limit exceeded. Please wait before making more requests.'')
   \<and> get_all_reviews demo_config (paged_net short_stream) ''b'' None [] =
       Some (Inr [JString ''a''], [Get (page_request demo_config ''b'' 1), Sleep (1 / 10)])"
proof -
  have nl: "\<not> limit_reached None 1" by (simp add: limit_reached_def)
  have p1: "reviews_of (page_result demo_config (paged_net short_stream) ''b'' 1) = Some [JString ''a'']"
    by (simp add: reviews_of_ok_page [of short_stream] short_stream_def)
  have p2: "reviews_of (page_result demo_config (paged_net short_stream) ''b'' 2) = Some [JString ''b'']"
    by (simp add: reviews_of_ok_page [of short_stream] short_stream_def)
  have p3: "page_result demo_config (paged_net short_stream) ''b'' 3 =
       Inl (TrustpilotAPIError ''Rate limit exceeded. Please wait before making more requests.'')"
    by (simp add: page_result_rate_limited [of short_stream] short_stream_def)
  have e1: "page_events demo_config (paged_net short_stream) ''b'' 1 =
      [Get (page_request demo_config ''b'' 1), Sleep (1 / 10)]"
    by (simp add: page_events_ok_page [of short_stream] short_stream_def demo_config_def)
  have "get_all_reviews demo_config (paged_net short_stream) ''b'' None [] =
       Some (Inr [JString ''a''], [Get (page_request demo_config ''b'' 1), Sleep (1 / 10)])"
    unfolding get_all_reviews_def using loop_short [OF nl p1, where acc = "[]" and s = "[]"] e1
    by simp
  with p1 p2 p3 show ?thesis by simp
qed

text \<open>
  C2: when page 1 returns 100 reviews, page 2 returns 100 reviews and page 3 returns 42
  reviews, \<open>get_all_reviews\<close> without a maximum page count returns the 242 reviews in
  page order and sends exactly three requests, for pages 1, 2 and 3, each with
  \<^verbatim>\<open>perPage\<close> 100.
\<close>

theorem three_pages_242:
  assumes "reviews_of (page_result config net buid 1) = Some r1" "length r1 = 100"
    and "reviews_of (page_result config net buid 2) = Some r2" "length r2 = 100"
    and "reviews_of (page_result config net buid 3) = Some r3" "length r3 = 42"
  shows "get_all_reviews config net buid None s =
           Some (Inr (r1 @ r2 @ r3),
                 s @ page_events config net buid 1 @ page_events config net buid 2
                   @ page_events config net buid 3)
         \<and> length (r1 @ r2 @ r3) = 242
         \<and> requests_of (page_events config net buid 1 @ page_events config net buid 2
                          @ page_events config net buid 3) =
             [page_request config buid 1, page_request config buid 2, page_request config buid 3]
         \<and> params (page_request config buid 1) = Some [(''perPage'', PInt 100), (''page'', PInt 1)]
         \<and> params (page_request config buid 2) = Some [(''perPage'', PInt 100), (''page'', PInt 2)]
         \<and> params (page_request config buid 3) = Some [(''perPage'', PInt 100), (''page'', PInt 3)]"
proof -
  have nl: "\<And>k. \<not> limit_reached None k" by (simp add: limit_reached_def)
  have run: "get_all_reviews config net buid None s =
           Some (Inr (r1 @ r2 @ r3),
                 s @ page_events config net buid 1 @ page_events config net buid 2
                   @ page_events config net buid 3)"
  proof -
    have "get_all_reviews_loop config net buid None [] 1 s =
        get_all_reviews_loop config net buid None ([] @ r1) (1 + 1)
          (s @ page_events config net buid 1)"
      by (rule loop_full [OF nl assms(1)]) (simp add: assms(2))
    also have "\<dots> = get_all_reviews_loop config net buid None (r1 @ r2) (2 + 1)
          ((s @ page_events config net buid 1) @ page_events config net buid 2)"
      using loop_full [OF nl assms(3), where acc = r1] by (simp add: assms(4))
    also have "\<dots> = Some (Inr ((r1 @ r2) @ r3),
          ((s @ page_events config net buid 1) @ page_events config net buid 2)
            @ page_events config net buid 3)"
      using loop_short [OF nl assms(5), where acc = "r1 @ r2"] by (simp add: assms(6))
    finally show ?thesis by (simp add: get_all_reviews_def)
  qed
  show ?thesis
    using run assms(2,4,6)
    by (simp add: requests_of_append requests_of_page_events page_request_def)
qed

text \<open>
  The same run on the simulated stream, with the whole trace written out.
\<close>

theorem three_pages_242_witness:
  "get_all_reviews demo_config (paged_net sim_stream) ''b'' None [] =
     Some (Inr (replicate 100 (JString ''a'') @ replicate 100 (JString ''b'')
                @ replicate 42 (JString ''c'')),
           [Get (page_request demo_config ''b'' 1), Sleep (1 / 10),
            Get (page_request demo_config ''b'' 2), Sleep (1 / 10),
            Get (page_request demo_config ''b'' 3), Sleep (1 / 10)])"
  using three_pages_242 [where config = demo_config and net = "paged_net sim_stream"
      and buid = "''b''" and s = "[]"
      and ?r1.0 = "replicate 100 (JString ''a'')" and ?r2.0 = "replicate 100 (JString ''b'')"
      and ?r3.0 = "replicate 42 (JString ''c'')"]
  by (simp add: reviews_of_ok_page [of sim_stream] page_events_ok_page [of sim_stream]
      sim_stream_def demo_config_def)








text \<open>
  C6: for every page size given to \<open>get_reviews\<close>, the request on the wire carries
  \<^verbatim>\<open>perPage\<close> equal to the minimum of the input and 100: 100 when the input is
  greater, the input itself otherwise.
\<close>

theorem per_page_clamped:
  "requests_of (snd (get_reviews config net buid per_page page s)) =
     requests_of s @
       [\<lparr>url = base_url config @ ''/business-units/'' @ buid @ ''/reviews'',
         params = Some [(''perPage'', PInt (if 100 < per_page then 100 else per_page)),
                        (''page'', PInt page)],
         req_timeout = timeout config\<rparr>]
   \<and> (if 100 < per_page then 100 else per_page) = min per_page 100"
  unfolding get_reviews_def snd_make_request
  apply (subst try_block_trace)
  apply (simp add: requests_of_append requests_of_try_block build_request_def lstrip_slash_def)
  done

text \<open>
  Page sizes 250, 20 and 100 go out as 100, 20 and 100.
\<close>

theorem per_page_clamped_witness:
  "requests_of (snd (get_reviews demo_config (paged_net sim_stream) ''b'' 250 1 [])) =
     [\<lparr>url = ''https://api.trustpilot.com/v1/business-units/b/reviews'',
       params = Some [(''perPage'', PInt 100), (''page'', PInt 1)], req_timeout = 30\<rparr>]
   \<and> requests_of (snd (get_reviews demo_config (paged_net sim_stream) ''b'' 20 1 [])) =
     [\<lparr>url = ''https://api.trustpilot.com/v1/business-units/b/reviews'',
       params = Some [(''perPage'', PInt 20), (''page'', PInt 1)], req_timeout = 30\<rparr>]
   \<and> requests_of (snd (get_reviews demo_config (paged_net sim_stream) ''b'' 100 1 [])) =
     [\<lparr>url = ''https://api.trustpilot.com/v1/business-units/b/reviews'',
       params = Some [(''perPage'', PInt 100), (''page'', PInt 1)], req_timeout = 30\<rparr>]"
  using per_page_clamped [of demo_config "paged_net sim_stream" "''b''" 250 1 "[]"]
    per_page_clamped [of demo_config "paged_net sim_stream" "''b''" 20 1 "[]"]
    per_page_clamped [of demo_config "paged_net sim_stream" "''b''" 100 1 "[]"]
  by (simp add: demo_config_def)

text \<open>
  C7: with a maximum page count of 1 and a first page of 100 reviews (whatever the later
  pages hold), \<open>get_all_reviews\<close> returns exactly the reviews of page 1 and sends
  exactly one request.
\<close>

theorem max_pages_one:
  assumes "reviews_of (page_result config net buid 1) = Some r1" "length r1 = 100"
  shows "get_all_reviews config net buid (Some 1) s =
           Some (Inr r1, s @ page_events config net buid 1)
         \<and> requests_of (page_events config net buid 1) = [page_request config buid 1]"
proof -
  have "get_all_reviews_loop config net buid (Some 1) [] 1 s =
      get_all_reviews_loop config net buid (Some 1) ([] @ r1) (1 + 1)
        (s @ page_events config net buid 1)"
    by (rule loop_full [OF _ assms(1)]) (simp_all add: assms(2) limit_reached_def)
  also have "\<dots> = Some (Inr ([] @ r1), s @ page_events config net buid 1)"
    by (rule loop_limit) (simp add: limit_reached_def)
  finally show ?thesis
    by (simp add: get_all_reviews_def requests_of_page_events)
qed

text \<open>
  The simulated stream of 100, 100 and 42 reviews, cut after one page.
\<close>

theorem max_pages_one_witness:
  "get_all_reviews demo_config (paged_net sim_stream) ''b'' (Some 1) [] =
     Some (Inr (replicate 100 (JString ''a'')),
           [Get (page_request demo_config ''b'' 1), Sleep (1 / 10)])"
  using max_pages_one [where config = demo_config and net = "paged_net sim_stream"
      and buid = "''b''" and s = "[]" and ?r1.0 = "replicate 100 (JString ''a'')"]
  by (simp add: reviews_of_ok_page [of sim_stream] page_events_ok_page [of sim_stream]
      sim_stream_def demo_config_def)




text \<open>
  C10: with a positive maximum page count \<open>get_all_reviews\<close> returns (or raises) for
  every behaviour of the server. Without a maximum page count, on a stream whose pages
  are each an API error or a review list, it returns if and only if some page is an API
  error, an empty review list or a list of fewer than 100 reviews; otherwise the loop
  never ends.
\<close>

theorem get_all_reviews_termination:
  "(0 < m \<longrightarrow> (\<exists>y. get_all_reviews config net buid (Some m) s = Some y)) \<and>
   ((\<forall>k\<ge>1. is_api_error (page_result config net buid k) \<or>
             reviews_of (page_result config net buid k) \<noteq> None) \<longrightarrow>
    ((\<exists>y. get_all_reviews config net buid None s = Some y) \<longleftrightarrow>
     (\<exists>k\<ge>1. is_api_error (page_result config net buid k) \<or>
        (\<exists>xs. reviews_of (page_result config net buid k) = Some xs \<and>
              (xs = [] \<or> length xs < 100)))))"
proof (intro conjI impI iffI)
  assume "0 < m"
  then show "\<exists>y. get_all_reviews config net buid (Some m) s = Some y"
    unfolding get_all_reviews_def by (rule loop_terminates_bounded)
next
  assume wf: "\<forall>k\<ge>1. is_api_error (page_result config net buid k) \<or>
             reviews_of (page_result config net buid k) \<noteq> None"
  assume "\<exists>y. get_all_reviews config net buid None s = Some y"
  then obtain y where "get_all_reviews_loop config net buid None [] 1 s = Some y"
    unfolding get_all_reviews_def by blast
  from loop_returns_stop [OF this] wf
  show "\<exists>k\<ge>1. is_api_error (page_result config net buid k) \<or>
        (\<exists>xs. reviews_of (page_result config net buid k) = Some xs \<and>
              (xs = [] \<or> length xs < 100))"
    by blast
next
  assume "\<exists>k\<ge>1. is_api_error (page_result config net buid k) \<or>
        (\<exists>xs. reviews_of (page_result config net buid k) = Some xs \<and>
              (xs = [] \<or> length xs < 100))"
  then obtain k where k: "1 \<le> k" and
    "is_api_error (page_result config net buid k) \<or>
        (\<exists>xs. reviews_of (page_result config net buid k) = Some xs \<and>
              (xs = [] \<or> length xs < 100))" by blast
  then have "is_api_error (page_result config net buid k) \<or>
      (\<exists>xs. reviews_of (page_result config net buid k) = Some xs \<and> length xs < 100)"
    by auto
  from loop_terminates_at_stop [OF this k]
  show "\<exists>y. get_all_reviews config net buid None s = Some y"
    unfolding get_all_reviews_def .
qed

text \<open>
  The simulated stream of 100, 100 and 42 reviews: the run returns with a maximum of
  three pages, and without a maximum. On the stream whose every page holds 100 reviews
  the run without a maximum never returns.
\<close>

theorem get_all_reviews_termination_witness:
  "(\<exists>y. get_all_reviews demo_config (paged_net sim_stream) ''b'' (Some 3) [] = Some y)
   \<and> (\<exists>y. get_all_reviews demo_config (paged_net sim_stream) ''b'' None [] = Some y)
   \<and> get_all_reviews demo_config (paged_net full_stream) ''b'' None [] = None"
proof -
  have wf: "\<forall>k\<ge>1. is_api_error (page_result demo_config (paged_net sim_stream) ''b'' k) \<or>
      reviews_of (page_result demo_config (paged_net sim_stream) ''b'' k) \<noteq> None"
  proof (intro allI impI disjI2)
    fix k :: int
    have "\<exists>xs. sim_stream k = ok_page xs" by (auto simp: sim_stream_def)
    then obtain xs where "sim_stream k = ok_page xs" ..
    then show "reviews_of (page_result demo_config (paged_net sim_stream) ''b'' k) \<noteq> None"
      by (simp add: reviews_of_ok_page)
  qed
  have stop: "\<exists>k\<ge>1. is_api_error (page_result demo_config (paged_net sim_stream) ''b'' k) \<or>
      (\<exists>xs. reviews_of (page_result demo_config (paged_net sim_stream) ''b'' k) = Some xs \<and>
            (xs = [] \<or> length xs < 100))"
    by (intro exI [of _ 3]) (simp add: reviews_of_ok_page [of sim_stream] sim_stream_def)
  have full: "page_result demo_config (paged_net full_stream) ''b'' k =
      Inr (JObject [(''reviews'', JArray (replicate 100 (JString ''a'')))])" for k
    by (simp add: page_result_ok_page [of full_stream] full_stream_def)
  have never: "get_all_reviews demo_config (paged_net full_stream) ''b'' None [] = None"
    using get_all_reviews_termination [of 3 demo_config "paged_net full_stream" "''b''" "[]"]
    by (cases "get_all_reviews demo_config (paged_net full_stream) ''b'' None []")
       (auto simp: full)
  show ?thesis
    using get_all_reviews_termination [of 3 demo_config "paged_net sim_stream" "''b''" "[]"]
      wf stop never
    by simp
qed

end
